theory Spec2Isabelle
  imports Main "HOL-Library.Word"
begin

section \<open>Bytes, errors and JavaScript values\<close>

text \<open>
  A Node \<open>Buffer\<close> is a list of bytes. Lengths, offsets and the value of the length
  field are JavaScript numbers that never wrap, so they are \<open>nat\<close> or \<open>int\<close>.
\<close>

type_synonym byte = "8 word"
type_synonym buffer = "byte list"

text \<open>
  The exceptions the library raises (\<open>errors.ts\<close>), the built-in \<open>TypeError\<close> and
  \<open>RangeError\<close>, and an error event of a source stream. A constructor carries the
  message where the source passes one of its own.
\<close>

datatype error =
    TypeError string
  | RangeError
  | PreludeMagicMismatchError string
  | PreludeTruncatedError
  | PreludeJsonTooLargeError
  | PreludeJsonParseError string
  | PreludeInvalidTypeError
  | PreludeFlowingModeError
  | StreamError string

definition default_magic_mismatch_message :: string where
  "default_magic_mismatch_message = ''Prelude magic mismatch''"

definition default_json_parse_message :: string where
  "default_json_parse_message = ''Failed to parse JSON payload''"

text \<open>
  The values a caller can hand over as a header. \<open>JExotic\<close> stands for every value that
  is no string, number, boolean, \<open>null\<close>, \<open>undefined\<close>, array or plain object: a
  function, a symbol, a bigint, a \<open>Date\<close>, a class instance. A finite number is
  represented by an integer; the three non-finite numbers are values of their own.
  An object is the list of its own enumerable properties in the order of
  \<open>Object.entries\<close>.
\<close>

datatype jsnum = Finite int | NaN | PosInfinity | NegInfinity

datatype jsvalue =
    JUndefined
  | JNull
  | JBoolean bool
  | JNumber jsnum
  | JString string
  | JArray "jsvalue list"
  | JObject "(string \<times> jsvalue) list"
  | JExotic

text \<open>
  The services of the JavaScript runtime that the library calls but does not
  implement: \<open>JSON.stringify\<close> (which may throw), \<open>JSON.parse\<close> (\<open>None\<close> when it
  throws), \<open>Buffer.from(s, 'utf8')\<close> and \<open>buf.toString('utf8')\<close>. The library is
  modelled over any runtime.
\<close>

record runtime =
  JSON_stringify :: "jsvalue \<Rightarrow> error + string"
  JSON_parse :: "string \<Rightarrow> jsvalue option"
  Buffer_from_utf8 :: "string \<Rightarrow> buffer"
  toString_utf8 :: "buffer \<Rightarrow> string"

definition Buffer_byteLength :: "runtime \<Rightarrow> string \<Rightarrow> nat" where
  \<comment> \<open>\<open>Buffer.byteLength(s, 'utf8')\<close>: the number of bytes of the encoded string.\<close>
  "Buffer_byteLength rt s = length (Buffer_from_utf8 rt s)"

section \<open>Constants\<close>

text \<open>
  Modelled from the spec: \<open>constants.ts\<close> is not among the sources. The marker and the
  length field take 4 bytes each, the default marker is the 4-byte ASCII token
  \<open>PRE1\<close> and the default maximum payload size is 16384 bytes.
\<close>

definition MAGIC_LENGTH :: nat where
  "MAGIC_LENGTH = 4"

definition LENGTH_BYTES :: nat where
  "LENGTH_BYTES = 4"

definition DEFAULT_MAX_JSON_BYTES :: int where
  "DEFAULT_MAX_JSON_BYTES = 16384"

datatype magic_item = MagicString string | MagicBuffer buffer

datatype multiple_magic = Single magic_item | Many "magic_item list"

definition DEFAULT_MAGIC :: magic_item where
  "DEFAULT_MAGIC = MagicString ''PRE1''"

section \<open>Options\<close>

record 'm magic_options =
  magic :: "'m option"
  maxJsonBytes :: "int option"

record encode_options = "magic_item magic_options" +
  version :: "jsnum option"

record frame_options = "multiple_magic magic_options" +
  frame_version :: "jsnum option"

record parse_options = "multiple_magic magic_options" +
  requirePrelude :: bool
  autoPause :: bool
  onHeaders :: bool

section \<open>Utilities (\<open>utils.ts\<close>)\<close>

fun map_result :: "('a \<Rightarrow> error + 'b) \<Rightarrow> 'a list \<Rightarrow> error + 'b list" where
  "map_result f [] = Inr []"
| "map_result f (x # xs) =
     (case f x of
        Inl e \<Rightarrow> Inl e
      | Inr y \<Rightarrow> (case map_result f xs of Inl e \<Rightarrow> Inl e | Inr ys \<Rightarrow> Inr (y # ys)))"

definition assertMagic :: "runtime \<Rightarrow> magic_item \<Rightarrow> error + buffer" where
  "assertMagic rt m =
     (let buf = (case m of MagicBuffer b \<Rightarrow> b | MagicString s \<Rightarrow> Buffer_from_utf8 rt s)
      in if length buf \<noteq> MAGIC_LENGTH
         then Inl (TypeError ''magic must be exactly 4 bytes'')
         else Inr buf)"

definition assertMagicList :: "runtime \<Rightarrow> multiple_magic option \<Rightarrow> error + buffer list" where
  "assertMagicList rt m =
     (let items = (case m of
                     None \<Rightarrow> [DEFAULT_MAGIC]
                   | Some (Many ms) \<Rightarrow> ms
                   | Some (Single x) \<Rightarrow> [x])
      in map_result (assertMagic rt) items)"

definition isPlainObject :: "jsvalue \<Rightarrow> bool" where
  "isPlainObject v = (case v of JObject _ \<Rightarrow> True | _ \<Rightarrow> False)"

definition digit_char :: "nat \<Rightarrow> char" where
  "digit_char d = ''0123456789'' ! d"

fun show_nat :: "nat \<Rightarrow> string" where
  "show_nat n = (if n < 10 then [digit_char n] else show_nat (n div 10) @ [digit_char (n mod 10)])"

declare show_nat.simps [simp del]

definition non_serializable :: "string \<Rightarrow> error" where
  "non_serializable path = TypeError (path @ '' contains a non-serializable value'')"

fun assertSerializable :: "jsvalue \<Rightarrow> string \<Rightarrow> error + unit"
  and assertSerializable_forEach :: "jsvalue list \<Rightarrow> nat \<Rightarrow> string \<Rightarrow> error + unit"
  and assertSerializable_entries :: "(string \<times> jsvalue) list \<Rightarrow> string \<Rightarrow> error + unit"
where
  "assertSerializable (JString s) path = Inr ()"
| "assertSerializable (JNumber n) path = Inr ()"
| "assertSerializable (JBoolean b) path = Inr ()"
| "assertSerializable JNull path = Inr ()"
| "assertSerializable (JArray xs) path = assertSerializable_forEach xs 0 path"
| "assertSerializable (JObject kvs) path = assertSerializable_entries kvs path"
| "assertSerializable JUndefined path = Inl (non_serializable path)"
| "assertSerializable JExotic path = Inl (non_serializable path)"
| "assertSerializable_forEach [] i path = Inr ()"
| "assertSerializable_forEach (x # xs) i path =
     (case assertSerializable x (path @ ''['' @ show_nat i @ '']'') of
        Inl e \<Rightarrow> Inl e
      | Inr u \<Rightarrow> assertSerializable_forEach xs (Suc i) path)"
| "assertSerializable_entries [] path = Inr ()"
| "assertSerializable_entries ((key, entry) # kvs) path =
     (case assertSerializable entry (path @ ''.'' @ key) of
        Inl e \<Rightarrow> Inl e
      | Inr u \<Rightarrow> assertSerializable_entries kvs path)"

fun validatePrelude_entries :: "(string \<times> jsvalue) list \<Rightarrow> error + unit" where
  "validatePrelude_entries [] = Inr ()"
| "validatePrelude_entries ((key, v) # kvs) =
     (if v = JUndefined then Inl (TypeError (''prelude.'' @ key @ '' is undefined''))
      else (case assertSerializable v (''prelude.'' @ key) of
              Inl e \<Rightarrow> Inl e
            | Inr u \<Rightarrow> validatePrelude_entries kvs))"

definition object_entries :: "jsvalue \<Rightarrow> (string \<times> jsvalue) list" where
  "object_entries v = (case v of JObject kvs \<Rightarrow> kvs | _ \<Rightarrow> [])"

definition hasOwnProperty :: "jsvalue \<Rightarrow> string \<Rightarrow> bool" where
  "hasOwnProperty v k = (k \<in> fst ` set (object_entries v))"

definition validatePrelude :: "jsvalue \<Rightarrow> error + unit" where
  \<comment> \<open>imported by the API module under the name \<open>validateHeaders\<close>\<close>
  "validatePrelude prelude =
     (if \<not> isPlainObject prelude then Inl (TypeError ''prelude must be a plain object'')
      else if hasOwnProperty prelude ''v''
        then Inl (TypeError (''prelude must not declare the reserved key '' @ [CHR 0x22, CHR ''v'', CHR 0x22]))
      else validatePrelude_entries (object_entries prelude))"

definition uint32_bytes :: "nat \<Rightarrow> buffer" where
  \<comment> \<open>the four bytes of a 32-bit value, most significant first\<close>
  "uint32_bytes n =
     [of_nat (n div 16777216), of_nat (n div 65536), of_nat (n div 256), of_nat n]"

definition writeUInt32BE :: "buffer \<Rightarrow> nat \<Rightarrow> nat \<Rightarrow> error + buffer" where
  "writeUInt32BE buf val off =
     (if val > 4294967295 then Inl RangeError
      else if off + 4 > length buf then Inl RangeError
      else Inr (take off buf @ uint32_bytes val @ drop (off + 4) buf))"

definition readUInt32BE :: "buffer \<Rightarrow> nat \<Rightarrow> error + nat" where
  "readUInt32BE buf off =
     (if off + 4 > length buf then Inl RangeError
      else Inr (((unat (buf ! off) * 256 + unat (buf ! (off + 1))) * 256
                  + unat (buf ! (off + 2))) * 256 + unat (buf ! (off + 3))))"

definition allocUnsafe :: "nat \<Rightarrow> buffer" where
  \<comment> \<open>the content of a fresh buffer is not initialised; it is zero-filled here\<close>
  "allocUnsafe n = replicate n 0"

definition copy_to :: "buffer \<Rightarrow> buffer \<Rightarrow> nat \<Rightarrow> buffer" where
  \<comment> \<open>\<open>src.copy(target, targetStart)\<close>: as many bytes of \<open>src\<close> as fit\<close>
  "copy_to src target targetStart =
     (let k = min (length src) (length target - targetStart)
      in take targetStart target @ take k src @ drop (targetStart + k) target)"

definition makePreludeBuffer :: "buffer \<Rightarrow> buffer \<Rightarrow> error + buffer" where
  "makePreludeBuffer mg json =
     (let buf0 = allocUnsafe (MAGIC_LENGTH + LENGTH_BYTES + length json);
          buf1 = copy_to mg buf0 0
      in case writeUInt32BE buf1 (length json) MAGIC_LENGTH of
           Inl e \<Rightarrow> Inl e
         | Inr buf2 \<Rightarrow> Inr (copy_to json buf2 (MAGIC_LENGTH + LENGTH_BYTES)))"

definition validateJsonLength :: "int \<Rightarrow> int \<Rightarrow> error + unit" where
  "validateJsonLength len mx =
     (if len < 0 then Inl (TypeError ''JSON length must be a non-negative integer'')
      else if len > mx then Inl PreludeJsonTooLargeError
      else if len = 0 then Inl (PreludeJsonParseError ''JSON payload must be non-empty'')
      else Inr ())"

section \<open>Buffer-based encoding and decoding (\<open>api.ts\<close>)\<close>

definition first_magic :: "buffer list \<Rightarrow> buffer option" where
  \<comment> \<open>\<open>magics[0]\<close>, which is \<open>undefined\<close> for an empty list\<close>
  "first_magic magics = (case magics of [] \<Rightarrow> None | m # ms \<Rightarrow> Some m)"

definition undefined_magic :: error where
  \<comment> \<open>reading a property of \<open>undefined\<close>\<close>
  "undefined_magic = TypeError ''Cannot read properties of undefined''"

definition payload_object :: "jsnum \<Rightarrow> jsvalue \<Rightarrow> jsvalue" where
  \<comment> \<open>the object literal \<open>{ v: version, ...headers }\<close>\<close>
  "payload_object ver headers = JObject ((''v'', JNumber ver) # object_entries headers)"

definition encodePrelude :: "runtime \<Rightarrow> jsvalue \<Rightarrow> encode_options \<Rightarrow> error + buffer" where
  "encodePrelude rt headers opts =
     (case assertMagicList rt (map_option Single (magic opts)) of
        Inl e \<Rightarrow> Inl e
      | Inr magics \<Rightarrow>
          (let mg = first_magic magics;
               ver = (case version opts of None \<Rightarrow> Finite 1 | Some n \<Rightarrow> n);
               mx = (case maxJsonBytes opts of None \<Rightarrow> DEFAULT_MAX_JSON_BYTES | Some n \<Rightarrow> n)
           in case validatePrelude headers of
                Inl e \<Rightarrow> Inl e
              | Inr u \<Rightarrow>
                  (case JSON_stringify rt (payload_object ver headers) of
                     Inl e \<Rightarrow> Inl e
                   | Inr jsonString \<Rightarrow>
                       (let jsonBuffer = Buffer_from_utf8 rt jsonString
                        in case validateJsonLength (int (length jsonBuffer)) mx of
                             Inl e \<Rightarrow> Inl e
                           | Inr u \<Rightarrow>
                               (case mg of
                                  None \<Rightarrow> Inl undefined_magic
                                | Some m \<Rightarrow> makePreludeBuffer m jsonBuffer)))))"

definition decodePrelude ::
  "runtime \<Rightarrow> buffer \<Rightarrow> (multiple_magic, 'x) magic_options_scheme \<Rightarrow> error + (jsvalue \<times> nat)" where
  "decodePrelude rt buf opts =
     (case assertMagicList rt (magic opts) of
        Inl e \<Rightarrow> Inl e
      | Inr magics \<Rightarrow>
          (let mx = (case maxJsonBytes opts of None \<Rightarrow> DEFAULT_MAX_JSON_BYTES | Some n \<Rightarrow> n)
           in if length buf < MAGIC_LENGTH + LENGTH_BYTES then Inl PreludeTruncatedError
              else let sliceMagic = take MAGIC_LENGTH buf
                   in if \<not> (\<exists>m \<in> set magics. sliceMagic = m)
                      then Inl (PreludeMagicMismatchError default_magic_mismatch_message)
                      else (case readUInt32BE buf MAGIC_LENGTH of
                              Inl e \<Rightarrow> Inl e
                            | Inr jsonLength \<Rightarrow>
                                (case validateJsonLength (int jsonLength) mx of
                                   Inl e \<Rightarrow> Inl e
                                 | Inr u \<Rightarrow>
                                     (let start = MAGIC_LENGTH + LENGTH_BYTES;
                                          end = start + jsonLength
                                      in if length buf < end then Inl PreludeTruncatedError
                                         else (case JSON_parse rt
                                                      (toString_utf8 rt (take jsonLength (drop start buf))) of
                                                 None \<Rightarrow> Inl (PreludeJsonParseError default_json_parse_message)
                                               | Some parsed \<Rightarrow>
                                                   if \<not> isPlainObject parsed
                                                   then Inl PreludeInvalidTypeError
                                                   else Inr (parsed, end)))))))"

definition getPreludeSize :: "runtime \<Rightarrow> jsvalue \<Rightarrow> encode_options \<Rightarrow> error + nat" where
  "getPreludeSize rt headers opts =
     (case assertMagicList rt (map_option Single (magic opts)) of
        Inl e \<Rightarrow> Inl e
      | Inr magics \<Rightarrow>
          (let mg = first_magic magics;
               ver = (case version opts of None \<Rightarrow> Finite 1 | Some n \<Rightarrow> n);
               mx = (case maxJsonBytes opts of None \<Rightarrow> DEFAULT_MAX_JSON_BYTES | Some n \<Rightarrow> n)
           in case validatePrelude headers of
                Inl e \<Rightarrow> Inl e
              | Inr u \<Rightarrow>
                  (case JSON_stringify rt (payload_object ver headers) of
                     Inl e \<Rightarrow> Inl e
                   | Inr jsonString \<Rightarrow>
                       (let jsonLength = Buffer_byteLength rt jsonString
                        in case validateJsonLength (int jsonLength) mx of
                             Inl e \<Rightarrow> Inl e
                           | Inr u \<Rightarrow>
                               (case mg of
                                  None \<Rightarrow> Inl undefined_magic
                                | Some m \<Rightarrow> Inr (length m + LENGTH_BYTES + jsonLength))))))"

section \<open>The push-mode transform\<close>

datatype chunk = ChunkBuffer buffer | ChunkString string | ChunkUnsupported

definition toBuffer :: "runtime \<Rightarrow> chunk \<Rightarrow> error + buffer" where
  \<comment> \<open>an \<open>ArrayBuffer\<close> or a view of one is a \<open>ChunkBuffer\<close> of its bytes\<close>
  "toBuffer rt c =
     (case c of
        ChunkBuffer b \<Rightarrow> Inr b
      | ChunkString s \<Rightarrow> Inr (Buffer_from_utf8 rt s)
      | ChunkUnsupported \<Rightarrow> Inl (TypeError ''Unsupported chunk type received from stream''))"

datatype stage = Magic | Length | Json | Body

text \<open>
  What a consumer of the transform observes, in order: a \<open>prelude\<close> event with its
  argument, or a chunk pushed downstream.
\<close>

datatype emission = Emit_prelude jsvalue | Push buffer

text \<open>
  The closure of one transform: the two constants computed from the options, the four
  variables of the state machine, the outputs made so far and the error handed to the
  callback, if any.
\<close>

record transform_state =
  t_magics :: "buffer list"
  t_maxJsonBytes :: int
  stage :: stage
  needed :: nat
  buffer :: "byte list"
  jsonLength :: nat
  outputs :: "emission list"
  failure :: "error option"

definition stage_rank :: "stage \<Rightarrow> nat" where
  "stage_rank s = (case s of Magic \<Rightarrow> 0 | Length \<Rightarrow> 1 | Json \<Rightarrow> 2 | Body \<Rightarrow> 3)"

function transform_loop :: "runtime \<Rightarrow> transform_state \<Rightarrow> transform_state" where
  "transform_loop rt st =
     (if length (buffer st) < needed st then st
      else (case stage st of
              Magic \<Rightarrow>
                (let slice = take MAGIC_LENGTH (buffer st);
                     rest = drop MAGIC_LENGTH (buffer st)
                 in if \<not> (\<exists>m \<in> set (t_magics st). slice = m)
                    then st\<lparr>outputs := outputs st @ [Emit_prelude (JObject []), Push slice]
                                        @ (if rest \<noteq> [] then [Push rest] else []),
                            stage := Body, buffer := [], needed := 0\<rparr>
                    else transform_loop rt
                           (st\<lparr>buffer := rest, stage := Length, needed := LENGTH_BYTES\<rparr>))
            | Length \<Rightarrow>
                (case readUInt32BE (buffer st) 0 of
                   Inl e \<Rightarrow> st\<lparr>failure := Some e\<rparr>
                 | Inr n \<Rightarrow>
                     (case validateJsonLength (int n) (t_maxJsonBytes st) of
                        Inl e \<Rightarrow> st\<lparr>jsonLength := n, failure := Some e\<rparr>
                      | Inr u \<Rightarrow>
                          transform_loop rt
                            (st\<lparr>jsonLength := n, buffer := drop LENGTH_BYTES (buffer st),
                                stage := Json, needed := n\<rparr>)))
            | Json \<Rightarrow>
                (let jsonBuffer = take (jsonLength st) (buffer st);
                     st1 = st\<lparr>buffer := drop (jsonLength st) (buffer st)\<rparr>
                 in case JSON_parse rt (toString_utf8 rt jsonBuffer) of
                      None \<Rightarrow> st1\<lparr>failure := Some (PreludeJsonParseError default_json_parse_message)\<rparr>
                    | Some parsed \<Rightarrow>
                        if \<not> isPlainObject parsed
                        then st1\<lparr>failure := Some PreludeInvalidTypeError\<rparr>
                        else st1\<lparr>outputs := outputs st1 @ [Emit_prelude parsed],
                                 stage := Body, needed := 0\<rparr>)
            | Body \<Rightarrow> st))"
  by pat_completeness auto
termination
  by (relation "measure (\<lambda>(rt, st). 3 - stage_rank (stage st))")
     (auto simp: stage_rank_def)

declare transform_loop.simps [simp del]

definition transform :: "runtime \<Rightarrow> transform_state \<Rightarrow> chunk \<Rightarrow> transform_state" where
  \<comment> \<open>one call of the \<open>transform\<close> method; a failed stream takes no further chunk\<close>
  "transform rt st c =
     (if failure st \<noteq> None then st
      else (case toBuffer rt c of
              Inl e \<Rightarrow> st\<lparr>failure := Some e\<rparr>
            | Inr bufChunk \<Rightarrow>
                (let st1 = st\<lparr>buffer := (if buffer st \<noteq> [] then buffer st @ bufChunk
                                             else bufChunk)\<rparr>;
                     st2 = transform_loop rt st1
                 in if failure st2 \<noteq> None then st2
                    else if stage st2 = Body \<and> buffer st2 \<noteq> []
                      then st2\<lparr>outputs := outputs st2 @ [Push (buffer st2)], buffer := []\<rparr>
                      else st2)))"

definition parsePreludeTransform ::
  "runtime \<Rightarrow> (multiple_magic, 'x) magic_options_scheme \<Rightarrow> error + transform_state" where
  "parsePreludeTransform rt opts =
     (case assertMagicList rt (magic opts) of
        Inl e \<Rightarrow> Inl e
      | Inr ms \<Rightarrow>
          Inr \<lparr>t_magics = ms,
               t_maxJsonBytes = (case maxJsonBytes opts of None \<Rightarrow> DEFAULT_MAX_JSON_BYTES | Some n \<Rightarrow> n),
               stage = Magic, needed = MAGIC_LENGTH, buffer = [], jsonLength = 0,
               outputs = [], failure = None\<rparr>)"

fun write_all :: "runtime \<Rightarrow> transform_state \<Rightarrow> chunk list \<Rightarrow> transform_state" where
  "write_all rt st [] = st"
| "write_all rt st (c # cs) = write_all rt (transform rt st c) cs"

definition emitted_preludes :: "emission list \<Rightarrow> jsvalue list" where
  "emitted_preludes out = concat (map (\<lambda>x. case x of Emit_prelude h \<Rightarrow> [h] | Push b \<Rightarrow> []) out)"

definition pushed_bytes :: "emission list \<Rightarrow> buffer" where
  "pushed_bytes out = concat (map (\<lambda>x. case x of Emit_prelude h \<Rightarrow> [] | Push b \<Rightarrow> b) out)"

section \<open>Readable streams\<close>

text \<open>
  The part of a Node \<open>Readable\<close> that the library touches, for a byte stream in paused
  mode. \<open>readableBuffer\<close> holds the bytes already received (\<open>readableLength\<close> is its
  length); \<open>upcoming\<close> is what the producer will deliver next, in order: a chunk, an
  error, or the end of input. A source whose producer delivers nothing more without
  having finished stays silent for ever.
\<close>

datatype source_event = Data buffer | Fail error | Finish

record readable =
  readableBuffer :: buffer
  upcoming :: "source_event list"
  ended :: bool
  readableEnded :: bool
  readableFlowing :: "bool option"
  dataListeners :: nat
  destroyed :: bool
  errored :: "error option"
  canUnshift :: bool

definition pause :: "readable \<Rightarrow> readable" where
  "pause s = s\<lparr>readableFlowing := Some False\<rparr>"

definition destroy :: "readable \<Rightarrow> error \<Rightarrow> readable" where
  \<comment> \<open>\<open>destroy(err)\<close> does nothing on a stream that is destroyed already\<close>
  "destroy s e = (if destroyed s then s else s\<lparr>destroyed := True, errored := Some e\<rparr>)"

definition read :: "readable \<Rightarrow> nat \<Rightarrow> chunk option \<times> readable" where
  \<comment> \<open>\<open>read(n)\<close>: \<open>n\<close> bytes once they are buffered, what is left once the input has
      ended, and \<open>null\<close> otherwise\<close>
  "read s n =
     (if destroyed s \<or> n = 0 then (None, s)
      else if n \<le> length (readableBuffer s)
        then (Some (ChunkBuffer (take n (readableBuffer s))),
              s\<lparr>readableBuffer := drop n (readableBuffer s)\<rparr>)
      else if ended s \<and> readableBuffer s \<noteq> []
        then (Some (ChunkBuffer (readableBuffer s)), s\<lparr>readableBuffer := []\<rparr>)
      else (None, s))"

definition unshift :: "readable \<Rightarrow> buffer \<Rightarrow> readable" where
  \<comment> \<open>after the \<open>end\<close> event the stream fails; a destroyed stream ignores the call\<close>
  "unshift s bytes =
     (if readableEnded s
        then destroy s (StreamError ''stream.unshift() after end event'')
      else if destroyed s then s
      else s\<lparr>readableBuffer := bytes @ readableBuffer s\<rparr>)"

definition pipe :: "readable \<Rightarrow> readable" where
  \<comment> \<open>\<open>source.pipe(dest)\<close> attaches a \<open>data\<close> listener and switches to flowing mode\<close>
  "pipe s = s\<lparr>readableFlowing := Some True, dataListeners := Suc (dataListeners s)\<rparr>"

datatype wakeup = On_readable | On_end | On_error error

definition await_event :: "readable \<Rightarrow> (wakeup \<times> readable) option" where
  \<comment> \<open>the next of \<open>readable\<close>, \<open>end\<close> and \<open>error\<close> that a waiting reader is woken by;
      \<open>None\<close> when none ever comes\<close>
  "await_event s =
     (if destroyed s then None
      else if ended s then
        (if readableBuffer s = [] then Some (On_end, s\<lparr>readableEnded := True\<rparr>) else None)
      else (case upcoming s of
              [] \<Rightarrow> None
            | Data b # evs \<Rightarrow>
                Some (On_readable, s\<lparr>readableBuffer := readableBuffer s @ b, upcoming := evs\<rparr>)
            | Finish # evs \<Rightarrow> Some (On_readable, s\<lparr>ended := True, upcoming := evs\<rparr>)
            | Fail e # evs \<Rightarrow>
                Some (On_error e, s\<lparr>destroyed := True, errored := Some e, upcoming := evs\<rparr>)))"

fun pending_bytes :: "source_event list \<Rightarrow> buffer" where
  "pending_bytes [] = []"
| "pending_bytes (Data b # evs) = b @ pending_bytes evs"
| "pending_bytes (Fail e # evs) = []"
| "pending_bytes (Finish # evs) = []"

definition stream_content :: "readable \<Rightarrow> buffer" where
  \<comment> \<open>the bytes that a consumer reading the stream to its end receives\<close>
  "stream_content s =
     (if destroyed s then []
      else readableBuffer s @ (if ended s then [] else pending_bytes (upcoming s)))"

text \<open>A promise is resolved, rejected, or never settled.\<close>

datatype 'a outcome = Resolved 'a | Rejected error | Pending

function readExactly ::
  "runtime \<Rightarrow> readable \<Rightarrow> nat \<Rightarrow> buffer list \<Rightarrow> nat \<Rightarrow> buffer outcome \<times> readable" where
  "readExactly rt stream sz buffers collected =
     (if collected < sz then
        (case read stream (sz - collected) of
           (Some c, stream1) \<Rightarrow>
             (case toBuffer rt c of
                Inl e \<Rightarrow> (Rejected e, stream1)
              | Inr buf \<Rightarrow> readExactly rt stream1 sz (buffers @ [buf]) (collected + length buf))
         | (None, stream1) \<Rightarrow>
             if readableEnded stream1 then (Rejected PreludeTruncatedError, stream1)
             else (case await_event stream1 of
                     None \<Rightarrow> (Pending, stream1)
                   | Some (On_readable, stream2) \<Rightarrow> readExactly rt stream2 sz buffers collected
                   | Some (On_end, stream2) \<Rightarrow> (Rejected PreludeTruncatedError, stream2)
                   | Some (On_error e, stream2) \<Rightarrow> (Rejected e, stream2)))
      else (Resolved (case buffers of [b] \<Rightarrow> b | _ \<Rightarrow> concat buffers), stream))"
  by pat_completeness auto
termination
  by (relation "measures [\<lambda>(rt, s, sz, bufs, c). length (upcoming s),
                          \<lambda>(rt, s, sz, bufs, c). sz - c]")
     (auto simp: read_def await_event_def toBuffer_def simp flip: length_greater_0_conv
           split: if_splits list.splits source_event.splits)

declare readExactly.simps [simp del]

section \<open>Stream-based framing and parsing (\<open>api.ts\<close>)\<close>

text \<open>
  The body stream handed to the caller: the source itself, or a fresh \<open>PassThrough\<close>
  that holds the bytes written into it and receives the rest of the source by a pipe.
\<close>

datatype remainder = Source_itself | PassThrough buffer

definition remainder_content :: "remainder \<Rightarrow> readable \<Rightarrow> buffer" where
  "remainder_content r src =
     (case r of
        Source_itself \<Rightarrow> stream_content src
      | PassThrough written \<Rightarrow> written @ stream_content src)"

record parse_result =
  headers :: jsvalue
  remainder :: remainder
  notified :: "jsvalue option"

definition frameStream ::
  "runtime \<Rightarrow> readable \<Rightarrow> jsvalue \<Rightarrow> frame_options \<Rightarrow> error + (remainder \<times> readable)" where
  "frameStream rt source hdrs opts =
     (case assertMagicList rt (magic opts) of
        Inl e \<Rightarrow> Inl e
      | Inr magics \<Rightarrow>
          (let mg = first_magic magics;
               ver = (case frame_version opts of None \<Rightarrow> Finite 1 | Some n \<Rightarrow> n);
               mx = (case maxJsonBytes opts of None \<Rightarrow> DEFAULT_MAX_JSON_BYTES | Some n \<Rightarrow> n)
           in case validatePrelude hdrs of
                Inl e \<Rightarrow> Inl e
              | Inr u \<Rightarrow>
                  (case JSON_stringify rt (payload_object ver hdrs) of
                     Inl e \<Rightarrow> Inl (TypeError ''headers must be JSON serializable'')
                   | Inr jsonString \<Rightarrow>
                       (let jsonBuffer = Buffer_from_utf8 rt jsonString
                        in case validateJsonLength (int (length jsonBuffer)) mx of
                             Inl e \<Rightarrow> Inl e
                           | Inr u \<Rightarrow>
                               (case mg of
                                  None \<Rightarrow> Inl undefined_magic
                                | Some m \<Rightarrow>
                                    (case makePreludeBuffer m jsonBuffer of
                                       Inl e \<Rightarrow> Inl e
                                     | Inr prelude \<Rightarrow> Inr (PassThrough prelude, pipe source)))))))"

definition tryUnshiftRemainder :: "readable \<Rightarrow> (remainder \<times> readable) option" where
  "tryUnshiftRemainder source =
     (if \<not> canUnshift source then None
      else if readableFlowing source = Some True then None
      else if length (readableBuffer source) > 0 then None
      else Some (Source_itself, source))"

definition createPassThroughRemainder :: "readable \<Rightarrow> remainder \<times> readable" where
  "createPassThroughRemainder source = (PassThrough [], pipe source)"

definition tryUnshiftRemainderWithBytes :: "readable \<Rightarrow> buffer \<Rightarrow> (remainder \<times> readable) option" where
  "tryUnshiftRemainderWithBytes source bytes =
     (if \<not> canUnshift source then None
      else if readableFlowing source = Some True then None
      else if length (readableBuffer source) > 0 then None
      else Some (Source_itself, unshift source bytes))"

definition createPassThroughRemainderWithBytes :: "readable \<Rightarrow> buffer \<Rightarrow> remainder \<times> readable" where
  "createPassThroughRemainderWithBytes source bytes = (PassThrough bytes, pipe source)"

definition missing_prelude_message :: string where
  "missing_prelude_message =
     ''Missing or invalid prelude. Remove requirePrelude or pass correct magic.''"

definition parse_json_stage ::
  "runtime \<Rightarrow> parse_options \<Rightarrow> buffer \<Rightarrow> readable \<Rightarrow> parse_result outcome \<times> readable" where
  \<comment> \<open>the part of \<open>parsePrelude\<close> after the payload has been read\<close>
  "parse_json_stage rt opts jsonBuffer source =
     (case JSON_parse rt (toString_utf8 rt jsonBuffer) of
        None \<Rightarrow> (Rejected (PreludeJsonParseError default_json_parse_message), source)
      | Some parsed \<Rightarrow>
          if \<not> isPlainObject parsed then (Rejected PreludeInvalidTypeError, source)
          else (let (r, source1) = (case tryUnshiftRemainder source of
                                      Some x \<Rightarrow> x
                                    | None \<Rightarrow> createPassThroughRemainder source)
                in (Resolved \<lparr>headers = parsed, remainder = r,
                              notified = (if onHeaders opts then Some parsed else None)\<rparr>,
                    source1)))"

definition parse_length_stage ::
  "runtime \<Rightarrow> int \<Rightarrow> parse_options \<Rightarrow> readable \<Rightarrow> parse_result outcome \<times> readable" where
  \<comment> \<open>the part of \<open>parsePrelude\<close> after the marker has matched\<close>
  "parse_length_stage rt mx opts source =
     (case readExactly rt source LENGTH_BYTES [] 0 of
        (Rejected e, source1) \<Rightarrow> (Rejected e, source1)
      | (Pending, source1) \<Rightarrow> (Pending, source1)
      | (Resolved lengthBuffer, source1) \<Rightarrow>
          (case readUInt32BE lengthBuffer 0 of
             Inl e \<Rightarrow> (Rejected e, source1)
           | Inr n \<Rightarrow>
               (case validateJsonLength (int n) mx of
                  Inl e \<Rightarrow> (Rejected e, source1)
                | Inr u \<Rightarrow>
                    (case readExactly rt source1 n [] 0 of
                       (Rejected e, source2) \<Rightarrow> (Rejected e, source2)
                     | (Pending, source2) \<Rightarrow> (Pending, source2)
                     | (Resolved jsonBuffer, source2) \<Rightarrow>
                         parse_json_stage rt opts jsonBuffer source2))))"

definition parse_body ::
  "runtime \<Rightarrow> buffer list \<Rightarrow> int \<Rightarrow> parse_options \<Rightarrow> readable \<Rightarrow> parse_result outcome \<times> readable" where
  \<comment> \<open>the \<open>try\<close> block of \<open>parsePrelude\<close>\<close>
  "parse_body rt magics mx opts source =
     (if readableFlowing source = Some True \<and> dataListeners source > 0 \<and> \<not> autoPause opts
        then (Rejected PreludeFlowingModeError, source)
      else
        (case readExactly rt (pause source) MAGIC_LENGTH [] 0 of
           (Rejected e, source1) \<Rightarrow> (Rejected e, source1)
         | (Pending, source1) \<Rightarrow> (Pending, source1)
         | (Resolved receivedMagic, source1) \<Rightarrow>
             if \<not> (\<exists>m \<in> set magics. receivedMagic = m) then
               (if requirePrelude opts
                  then (Rejected (PreludeMagicMismatchError missing_prelude_message), source1)
                else (let (r, source2) =
                            (case tryUnshiftRemainderWithBytes source1 receivedMagic of
                               Some x \<Rightarrow> x
                             | None \<Rightarrow> createPassThroughRemainderWithBytes source1 receivedMagic)
                      in (Resolved \<lparr>headers = JObject [], remainder = r, notified = None\<rparr>,
                          source2)))
             else parse_length_stage rt mx opts source1))"

definition parsePrelude ::
  "runtime \<Rightarrow> readable \<Rightarrow> parse_options \<Rightarrow> parse_result outcome \<times> readable" where
  "parsePrelude rt source opts =
     (case assertMagicList rt (magic opts) of
        Inl e \<Rightarrow> (Rejected e, source)
      | Inr magics \<Rightarrow>
          (let mx = (case maxJsonBytes opts of None \<Rightarrow> DEFAULT_MAX_JSON_BYTES | Some n \<Rightarrow> n)
           in case parse_body rt magics mx opts source of
                (Rejected e, source1) \<Rightarrow> (Rejected e, destroy source1 e)
              | other \<Rightarrow> other))"

definition isFramedStream ::
  "runtime \<Rightarrow> readable \<Rightarrow> (multiple_magic, 'x) magic_options_scheme \<Rightarrow> bool outcome \<times> readable" where
  "isFramedStream rt source opts =
     (case assertMagicList rt (magic opts) of
        Inl e \<Rightarrow> (Rejected e, source)
      | Inr magics \<Rightarrow>
          if readableFlowing source = Some True \<and> dataListeners source > 0
            then (Resolved False, source)
          else (case readExactly rt (pause source) MAGIC_LENGTH [] 0 of
                  (Resolved probe, source1) \<Rightarrow> (Resolved (\<exists>m \<in> set magics. probe = m), source1)
                | (Rejected e, source1) \<Rightarrow> (Resolved False, source1)
                | (Pending, source1) \<Rightarrow> (Pending, source1)))"

section \<open>A reference runtime\<close>

text \<open>
  A runtime to run the library on: the JSON texts of integers, strings, booleans,
  \<open>null\<close>, arrays and objects, over ASCII text, where one character is one byte.
  \<open>serialize\<close> follows \<open>JSON.stringify\<close>: a non-finite number becomes \<open>null\<close>, a
  property whose value has no JSON text is left out, and such an array element becomes
  \<open>null\<close>. \<open>parse_text\<close> follows \<open>JSON.parse\<close> on texts without fractions and
  exponents and without escapes beyond code point 255; the fuel is the length of
  the text.
\<close>

definition ascii_bytes :: "string \<Rightarrow> buffer" where
  "ascii_bytes s = map (\<lambda>c. of_nat (of_char c)) s"

definition ascii_string :: "buffer \<Rightarrow> string" where
  "ascii_string b = map (\<lambda>w. char_of (unat w)) b"

definition hex_digit :: "nat \<Rightarrow> char" where
  "hex_digit d = ''0123456789abcdef'' ! d"

definition quote_char :: "char \<Rightarrow> string" where
  "quote_char c =
     (if c = CHR 0x22 then [CHR 0x5C, CHR 0x22]
      else if c = CHR 0x5C then [CHR 0x5C, CHR 0x5C]
      else if c = CHR 0x08 then [CHR 0x5C, CHR ''b'']
      else if c = CHR 0x0C then [CHR 0x5C, CHR ''f'']
      else if c = CHR 0x0A then [CHR 0x5C, CHR ''n'']
      else if c = CHR 0x0D then [CHR 0x5C, CHR ''r'']
      else if c = CHR 0x09 then [CHR 0x5C, CHR ''t'']
      else if (of_char c :: nat) < 32
        then [CHR 0x5C, CHR ''u'', CHR ''0'', CHR ''0'',
              hex_digit (of_char c div 16), hex_digit (of_char c mod 16)]
      else [c])"

definition quote :: "string \<Rightarrow> string" where
  "quote s = [CHR 0x22] @ concat (map quote_char s) @ [CHR 0x22]"

definition show_int :: "int \<Rightarrow> string" where
  "show_int i = (if i < 0 then ''-'' @ show_nat (nat (- i)) else show_nat (nat i))"

fun join :: "string \<Rightarrow> string list \<Rightarrow> string" where
  "join sep [] = []"
| "join sep [x] = x"
| "join sep (x # y # ys) = x @ sep @ join sep (y # ys)"

fun serialize :: "jsvalue \<Rightarrow> string option"
  and serialize_elements :: "jsvalue list \<Rightarrow> string list"
  and serialize_members :: "(string \<times> jsvalue) list \<Rightarrow> string list"
where
  "serialize JUndefined = None"
| "serialize JExotic = None"
| "serialize JNull = Some ''null''"
| "serialize (JBoolean b) = Some (if b then ''true'' else ''false'')"
| "serialize (JNumber n) = Some (case n of Finite i \<Rightarrow> show_int i | _ \<Rightarrow> ''null'')"
| "serialize (JString s) = Some (quote s)"
| "serialize (JArray xs) = Some (''['' @ join '','' (serialize_elements xs) @ '']'')"
| "serialize (JObject kvs) = Some (''{'' @ join '','' (serialize_members kvs) @ ''}'')"
| "serialize_elements [] = []"
| "serialize_elements (x # xs) =
     (case serialize x of None \<Rightarrow> ''null'' | Some s \<Rightarrow> s) # serialize_elements xs"
| "serialize_members [] = []"
| "serialize_members ((k, x) # kvs) =
     (case serialize x of
        None \<Rightarrow> serialize_members kvs
      | Some s \<Rightarrow> (quote k @ '':'' @ s) # serialize_members kvs)"


definition is_ws :: "char \<Rightarrow> bool" where
  "is_ws c = (c = CHR 0x20 \<or> c = CHR 0x09 \<or> c = CHR 0x0A \<or> c = CHR 0x0D)"

definition skip_ws :: "string \<Rightarrow> string" where
  "skip_ws s = dropWhile is_ws s"

definition is_digit :: "char \<Rightarrow> bool" where
  "is_digit c = (48 \<le> (of_char c :: nat) \<and> (of_char c :: nat) \<le> 57)"

definition hex_value :: "char \<Rightarrow> nat option" where
  "hex_value c =
     (let n = (of_char c :: nat)
      in if 48 \<le> n \<and> n \<le> 57 then Some (n - 48)
         else if 97 \<le> n \<and> n \<le> 102 then Some (n - 87)
         else if 65 \<le> n \<and> n \<le> 70 then Some (n - 55)
         else None)"

definition unescape :: "char \<Rightarrow> char option" where
  "unescape e =
     (if e = CHR 0x22 then Some (CHR 0x22)
      else if e = CHR 0x5C then Some (CHR 0x5C)
      else if e = CHR ''/'' then Some (CHR ''/'')
      else if e = CHR ''b'' then Some (CHR 0x08)
      else if e = CHR ''f'' then Some (CHR 0x0C)
      else if e = CHR ''n'' then Some (CHR 0x0A)
      else if e = CHR ''r'' then Some (CHR 0x0D)
      else if e = CHR ''t'' then Some (CHR 0x09)
      else None)"

definition unicode_escape :: "string \<Rightarrow> char option" where
  "unicode_escape hs =
     (case map hex_value hs of
        [Some a, Some b, Some c, Some d] \<Rightarrow>
          if a = 0 \<and> b = 0 then Some (char_of (16 * c + d)) else None
      | _ \<Rightarrow> None)"

fun string_chars :: "string \<Rightarrow> string \<Rightarrow> (string \<times> string) option" where
  "string_chars acc [] = None"
| "string_chars acc (c # cs) =
     (if c = CHR 0x22 then Some (rev acc, cs)
      else if c = CHR 0x5C then
        (case cs of
           [] \<Rightarrow> None
         | e # cs' \<Rightarrow>
             if e = CHR ''u'' then
               (case unicode_escape (take 4 cs') of
                  None \<Rightarrow> None
                | Some x \<Rightarrow> string_chars (x # acc) (drop 4 cs'))
             else (case unescape e of
                     None \<Rightarrow> None
                   | Some x \<Rightarrow> string_chars (x # acc) cs'))
      else if (of_char c :: nat) < 32 then None
      else string_chars (c # acc) cs)"

definition digits_value :: "string \<Rightarrow> nat" where
  "digits_value ds = foldl (\<lambda>n c. 10 * n + (of_char c - 48)) 0 ds"

definition number_token :: "string \<Rightarrow> (jsvalue \<times> string) option" where
  "number_token s =
     (let neg = (s \<noteq> [] \<and> hd s = CHR ''-'');
          body = (if neg then tl s else s);
          ds = takeWhile is_digit body;
          rest = dropWhile is_digit body
      in if ds = [] \<or> (hd ds = CHR ''0'' \<and> length ds > 1) then None
         else if rest \<noteq> [] \<and> (hd rest = CHR ''.'' \<or> hd rest = CHR ''e'' \<or> hd rest = CHR ''E'')
           then None
         else Some (JNumber (Finite (if neg then - int (digits_value ds) else int (digits_value ds))),
                    rest))"

definition literal :: "string \<Rightarrow> jsvalue \<Rightarrow> string \<Rightarrow> (jsvalue \<times> string) option" where
  "literal word v s = (if take (length word) s = word then Some (v, drop (length word) s) else None)"

fun set_property :: "(string \<times> jsvalue) list \<Rightarrow> string \<Rightarrow> jsvalue \<Rightarrow> (string \<times> jsvalue) list" where
  "set_property [] k v = [(k, v)]"
| "set_property ((k', v') # kvs) k v =
     (if k' = k then (k, v) # kvs else (k', v') # set_property kvs k v)"

fun parse_value :: "nat \<Rightarrow> string \<Rightarrow> (jsvalue \<times> string) option"
  and parse_elements :: "nat \<Rightarrow> jsvalue list \<Rightarrow> string \<Rightarrow> (jsvalue \<times> string) option"
  and parse_members :: "nat \<Rightarrow> (string \<times> jsvalue) list \<Rightarrow> string \<Rightarrow> (jsvalue \<times> string) option"
where
  "parse_value 0 s = None"
| "parse_value (Suc n) s =
     (case skip_ws s of
        [] \<Rightarrow> None
      | c # cs \<Rightarrow>
          if c = CHR ''{'' then
            (case skip_ws cs of
               [] \<Rightarrow> None
             | d # ds \<Rightarrow> if d = CHR ''}'' then Some (JObject [], ds)
                         else parse_members n [] (d # ds))
          else if c = CHR ''['' then
            (case skip_ws cs of
               [] \<Rightarrow> None
             | d # ds \<Rightarrow> if d = CHR '']'' then Some (JArray [], ds)
                         else parse_elements n [] (d # ds))
          else if c = CHR 0x22 then
            (case string_chars [] cs of
               None \<Rightarrow> None
             | Some (str, rest) \<Rightarrow> Some (JString str, rest))
          else if c = CHR ''t'' then literal ''true'' (JBoolean True) (c # cs)
          else if c = CHR ''f'' then literal ''false'' (JBoolean False) (c # cs)
          else if c = CHR ''n'' then literal ''null'' JNull (c # cs)
          else number_token (c # cs))"
| "parse_elements 0 acc s = None"
| "parse_elements (Suc n) acc s =
     (case parse_value n s of
        None \<Rightarrow> None
      | Some (v, rest) \<Rightarrow>
          (case skip_ws rest of
             [] \<Rightarrow> None
           | c # cs \<Rightarrow>
               if c = CHR '','' then parse_elements n (acc @ [v]) cs
               else if c = CHR '']'' then Some (JArray (acc @ [v]), cs)
               else None))"
| "parse_members 0 acc s = None"
| "parse_members (Suc n) acc s =
     (case skip_ws s of
        [] \<Rightarrow> None
      | q # s1 \<Rightarrow>
          if q \<noteq> CHR 0x22 then None
          else (case string_chars [] s1 of
                  None \<Rightarrow> None
                | Some (key, s2) \<Rightarrow>
                    (case skip_ws s2 of
                       [] \<Rightarrow> None
                     | c # s3 \<Rightarrow>
                         if c \<noteq> CHR '':'' then None
                         else (case parse_value n s3 of
                                 None \<Rightarrow> None
                               | Some (v, s4) \<Rightarrow>
                                   (case skip_ws s4 of
                                      [] \<Rightarrow> None
                                    | d # s5 \<Rightarrow>
                                        if d = CHR '','' then parse_members n (set_property acc key v) s5
                                        else if d = CHR ''}''
                                          then Some (JObject (set_property acc key v), s5)
                                        else None)))))"

definition parse_text :: "string \<Rightarrow> jsvalue option" where
  "parse_text s =
     (case parse_value (Suc (length s)) s of
        None \<Rightarrow> None
      | Some (v, rest) \<Rightarrow> if skip_ws rest = [] then Some v else None)"

text \<open>The runtime of the examples.\<close>

definition node :: runtime where
  "node = \<lparr>JSON_stringify =
              (\<lambda>v. case serialize v of
                      None \<Rightarrow> Inl (TypeError ''value is not serializable'')
                    | Some s \<Rightarrow> Inr s),
            JSON_parse = parse_text,
            Buffer_from_utf8 = ascii_bytes,
            toString_utf8 = ascii_string\<rparr>"

definition json_representable :: "runtime \<Rightarrow> jsvalue \<Rightarrow> bool" where
  \<comment> \<open>the runtime reads back from the payload bytes the value that it serialized\<close>
  "json_representable rt v =
     (case JSON_stringify rt v of
        Inl e \<Rightarrow> False
      | Inr s \<Rightarrow> JSON_parse rt (toString_utf8 rt (Buffer_from_utf8 rt s)) = Some v)"

definition sample_headers :: jsvalue where
  "sample_headers = JObject [(''contentType'', JString ''text/plain'')]"

definition sample_json :: string where
  \<open>sample_json = ''{"v":1,"contentType":"text/plain"}''\<close>

definition default_encode_options :: encode_options where
  "default_encode_options = \<lparr>magic = None, maxJsonBytes = None, version = None\<rparr>"

definition default_decode_options :: "multiple_magic magic_options" where
  "default_decode_options = \<lparr>magic = None, maxJsonBytes = None\<rparr>"

definition sample_frame :: buffer where
  "sample_frame = ascii_bytes ''PRE1'' @ [0, 0, 0, 34] @ ascii_bytes sample_json"

section \<open>Predicates used in the proofs\<close>

definition push_leftover :: "transform_state \<Rightarrow> transform_state" where
  \<comment> \<open>the last statement of \<open>transform\<close>, after the loop\<close>
  "push_leftover st2 =
     (if failure st2 \<noteq> None then st2
      else if stage st2 = Body \<and> buffer st2 \<noteq> []
        then st2\<lparr>outputs := outputs st2 @ [Push (buffer st2)], buffer := []\<rparr>
      else st2)"

definition waiting :: "transform_state \<Rightarrow> stage \<Rightarrow> nat \<Rightarrow> buffer \<Rightarrow> bool" where
  \<comment> \<open>the machine waits in a stage before the body, having made no output\<close>
  "waiting st s k b =
     (failure st = None \<and> stage st = s \<and> needed st = k \<and> buffer st = b \<and> outputs st = [])"

definition has_failed :: "transform_state \<Rightarrow> error \<Rightarrow> bool" where
  "has_failed st e = (failure st = Some e \<and> outputs st = [])"

definition is_push :: "emission \<Rightarrow> bool" where
  "is_push x = (case x of Push b \<Rightarrow> True | Emit_prelude h \<Rightarrow> False)"

definition in_body :: "transform_state \<Rightarrow> jsvalue \<Rightarrow> buffer \<Rightarrow> bool" where
  \<comment> \<open>the machine has emitted the header \<open>h\<close>, once and first, and pushed the bytes \<open>body\<close>\<close>
  "in_body st h body =
     (failure st = None \<and> stage st = Body \<and> needed st = 0 \<and> buffer st = []
      \<and> outputs st \<noteq> [] \<and> hd (outputs st) = Emit_prelude h
      \<and> list_all is_push (tl (outputs st))
      \<and> pushed_bytes (outputs st) = body)"

definition tracks :: "runtime \<Rightarrow> buffer list \<Rightarrow> int \<Rightarrow> buffer \<Rightarrow> transform_state \<Rightarrow> bool" where
  \<comment> \<open>the state of the machine as a function of all the bytes \<open>X\<close> written so far\<close>
  "tracks rt ms mx X st =
     (t_magics st = ms \<and> t_maxJsonBytes st = mx \<and>
      (if length X < 4 then waiting st Magic 4 X
       else if take 4 X \<notin> set ms then in_body st (JObject []) X
       else if length X < 8 then waiting st Length 4 (drop 4 X)
       else (case readUInt32BE X 4 of
               Inl e \<Rightarrow> False
             | Inr n \<Rightarrow>
                 (case validateJsonLength (int n) mx of
                    Inl e \<Rightarrow> has_failed st e
                  | Inr u \<Rightarrow>
                      if length X < 8 + n then waiting st Json n (drop 8 X) \<and> jsonLength st = n
                      else (case JSON_parse rt (toString_utf8 rt (take n (drop 8 X))) of
                              None \<Rightarrow> has_failed st (PreludeJsonParseError default_json_parse_message)
                            | Some p \<Rightarrow>
                                if \<not> isPlainObject p then has_failed st PreludeInvalidTypeError
                                else in_body st p (drop (8 + n) X))))))"

definition header_first :: "emission list \<Rightarrow> bool" where
  \<comment> \<open>one \<open>prelude\<close> event, and every push after it\<close>
  "header_first out =
     (case out of
        [] \<Rightarrow> False
      | x # xs \<Rightarrow> \<not> is_push x \<and> list_all is_push xs)"

definition well_formed :: "transform_state \<Rightarrow> bool" where
  \<comment> \<open>what the variables of the machine satisfy between two calls\<close>
  "well_formed st =
     (case stage st of
        Magic \<Rightarrow> needed st = 4 \<and> outputs st = []
      | Length \<Rightarrow> needed st = 4 \<and> outputs st = []
      | Json \<Rightarrow> needed st = jsonLength st \<and> outputs st = []
      | Body \<Rightarrow> header_first (outputs st))"

definition default_parse_options :: parse_options where
  "default_parse_options =
     \<lparr>magic = None, maxJsonBytes = None, requirePrelude = False, autoPause = False,
      onHeaders = False\<rparr>"

definition sample_transform :: transform_state where
  "sample_transform =
     \<lparr>t_magics = [ascii_bytes ''PRE1''], t_maxJsonBytes = 16384, stage = Magic, needed = 4,
      buffer = [], jsonLength = 0, outputs = [], failure = None\<rparr>"

section \<open>Bytes and markers\<close>

lemma length_uint32_bytes [simp]: "length (uint32_bytes n) = 4"
  by (simp add: uint32_bytes_def)

lemma unat_byte_of_nat: "unat (of_nat n :: byte) = n mod 256"
  by (simp add: unat_of_nat)

lemma be32_recompose:
  fixes n :: nat
  assumes "n \<le> 4294967295"
  shows "((n div 16777216 mod 256 * 256 + n div 65536 mod 256) * 256 + n div 256 mod 256) * 256
           + n mod 256 = n"
proof -
  define q1 where "q1 = n div 256"
  define q2 where "q2 = q1 div 256"
  define q3 where "q3 = q2 div 256"
  have e2: "n div 65536 = q2"
    by (simp add: q2_def q1_def div_mult2_eq [symmetric])
  have e3: "n div 16777216 = q3"
    by (simp add: q3_def q2_def q1_def div_mult2_eq [symmetric])
  have "q3 < 256"
    using assms unfolding e3 [symmetric] by simp
  then have m3: "q3 mod 256 = q3" by simp
  have "q3 * 256 + q2 mod 256 = q2"
    by (simp add: q3_def)
  moreover have "q2 * 256 + q1 mod 256 = q1"
    by (simp add: q2_def)
  moreover have "q1 * 256 + n mod 256 = n"
    by (simp add: q1_def)
  ultimately show ?thesis
    by (simp add: e2 e3 m3 q1_def [symmetric])
qed

lemma read_uint32_bytes:
  assumes "n \<le> 4294967295"
  shows "readUInt32BE (a @ uint32_bytes n @ b) (length a) = Inr n"
proof -
  let ?buf = "a @ uint32_bytes n @ b"
  have len: "\<not> length a + 4 > length ?buf"
    by simp
  have n0: "?buf ! length a = of_nat (n div 16777216)"
    and n1: "?buf ! (length a + 1) = of_nat (n div 65536)"
    and n2: "?buf ! (length a + 2) = of_nat (n div 256)"
    and n3: "?buf ! (length a + 3) = of_nat n"
    by (simp_all add: uint32_bytes_def nth_append)
  show ?thesis
    unfolding readUInt32BE_def
    by (simp only: len if_False n0 n1 n2 n3 unat_byte_of_nat be32_recompose [OF assms])
qed

lemma makePreludeBuffer_eq:
  assumes "length mg = MAGIC_LENGTH" "length json \<le> 4294967295"
  shows "makePreludeBuffer mg json = Inr (mg @ uint32_bytes (length json) @ json)"
  using assms
  by (simp add: makePreludeBuffer_def allocUnsafe_def copy_to_def writeUInt32BE_def
      MAGIC_LENGTH_def LENGTH_BYTES_def Let_def)

lemma makePreludeBuffer_too_long:
  assumes "length json > 4294967295"
  shows "makePreludeBuffer mg json = Inl RangeError"
  using assms by (simp add: makePreludeBuffer_def writeUInt32BE_def Let_def)

lemma assertMagic_length: "assertMagic rt m = Inr b \<Longrightarrow> length b = MAGIC_LENGTH"
  by (auto simp: assertMagic_def Let_def split: if_splits)

lemma map_result_assertMagic_length:
  "map_result (assertMagic rt) items = Inr ms \<Longrightarrow> m \<in> set ms \<Longrightarrow> length m = MAGIC_LENGTH"
  by (induction items arbitrary: ms) (auto split: sum.splits dest: assertMagic_length)

lemma assertMagicList_length:
  "assertMagicList rt mo = Inr ms \<Longrightarrow> m \<in> set ms \<Longrightarrow> length m = MAGIC_LENGTH"
  unfolding assertMagicList_def Let_def by (rule map_result_assertMagic_length)

lemma assertMagicList_single:
  assumes "assertMagicList rt (map_option Single mo) = Inr ms"
  obtains m where "ms = [m]" "length m = MAGIC_LENGTH"
proof -
  from assms obtain x where "map_result (assertMagic rt) [x] = Inr ms"
    by (cases mo) (auto simp: assertMagicList_def)
  then obtain m where m: "ms = [m]" "assertMagic rt x = Inr m"
    by (auto split: sum.splits)
  with that assertMagic_length show thesis by blast
qed

lemma validateJsonLength_Inr: "validateJsonLength len mx = Inr u \<longleftrightarrow> 0 < len \<and> len \<le> mx"
  by (auto simp: validateJsonLength_def)

lemma encodePrelude_Inr:
  assumes "encodePrelude rt H opts = Inr frame"
  obtains m s where
    "assertMagicList rt (map_option Single (magic opts)) = Inr [m]"
    "length m = MAGIC_LENGTH"
    "validatePrelude H = Inr ()"
    "JSON_stringify rt (payload_object (case version opts of None \<Rightarrow> Finite 1 | Some n \<Rightarrow> n) H) = Inr s"
    "0 < length (Buffer_from_utf8 rt s)"
    "int (length (Buffer_from_utf8 rt s)) \<le> (case maxJsonBytes opts of None \<Rightarrow> DEFAULT_MAX_JSON_BYTES | Some n \<Rightarrow> n)"
    "length (Buffer_from_utf8 rt s) \<le> 4294967295"
    "frame = m @ uint32_bytes (length (Buffer_from_utf8 rt s)) @ Buffer_from_utf8 rt s"
proof -
  from assms obtain ms where ms: "assertMagicList rt (map_option Single (magic opts)) = Inr ms"
    by (auto simp: encodePrelude_def split: sum.splits)
  then obtain m where m: "ms = [m]" "length m = MAGIC_LENGTH"
    by (rule assertMagicList_single)
  let ?ver = "case version opts of None \<Rightarrow> Finite 1 | Some n \<Rightarrow> n"
  let ?mx = "case maxJsonBytes opts of None \<Rightarrow> DEFAULT_MAX_JSON_BYTES | Some n \<Rightarrow> n"
  from assms ms m have v: "validatePrelude H = Inr ()"
    by (auto simp: encodePrelude_def Let_def split: sum.splits)
  from assms ms m v obtain s where s: "JSON_stringify rt (payload_object ?ver H) = Inr s"
    by (auto simp: encodePrelude_def Let_def split: sum.splits)
  let ?jb = "Buffer_from_utf8 rt s"
  from assms ms m v s have len: "validateJsonLength (int (length ?jb)) ?mx = Inr ()"
    by (auto simp: encodePrelude_def Let_def split: sum.splits)
  from assms ms m v s len have mk: "makePreludeBuffer m ?jb = Inr frame"
    by (simp add: encodePrelude_def Let_def first_magic_def)
  have small: "length ?jb \<le> 4294967295"
  proof (rule ccontr)
    assume "\<not> length ?jb \<le> 4294967295"
    then have "makePreludeBuffer m ?jb = Inl RangeError"
      by (simp add: makePreludeBuffer_too_long)
    with mk show False by simp
  qed
  from mk m small have fr: "frame = m @ uint32_bytes (length ?jb) @ ?jb"
    by (simp add: makePreludeBuffer_eq)
  from len have "0 < length ?jb" "int (length ?jb) \<le> ?mx"
    by (simp_all add: validateJsonLength_Inr)
  with that ms m v s small fr show thesis by blast
qed

section \<open>The reference runtime on the sample header\<close>

lemma show_nat_small [simp]: "n < 10 \<Longrightarrow> show_nat n = [digit_char n]"
  by (simp add: show_nat.simps)

lemma ascii_string_bytes [simp]: "ascii_string (ascii_bytes s) = s"
proof -
  have "char_of (unat (of_nat (of_char c :: nat) :: byte)) = c" for c :: char
    by (simp add: unat_of_nat)
  then show ?thesis
    by (simp add: ascii_string_def ascii_bytes_def map_idI)
qed

lemma length_ascii_bytes [simp]: "length (ascii_bytes s) = length s"
  by (simp add: ascii_bytes_def)

lemma sample_serialize: "serialize (payload_object (Finite 1) sample_headers) = Some sample_json"
  by (simp add: payload_object_def sample_headers_def object_entries_def sample_json_def
      quote_def quote_char_def show_int_def digit_char_def)

lemma sample_parse: "parse_text sample_json = Some (payload_object (Finite 1) sample_headers)"
  by (simp add: parse_text_def sample_json_def skip_ws_def is_ws_def number_token_def is_digit_def
      digits_value_def payload_object_def sample_headers_def object_entries_def)

lemma length_sample_json: "length sample_json = 34"
  by (simp add: sample_json_def)

lemma node_magic_default: "assertMagicList node None = Inr [ascii_bytes ''PRE1'']"
  by (simp add: assertMagicList_def assertMagic_def DEFAULT_MAGIC_def node_def MAGIC_LENGTH_def)

lemma sample_valid: "validatePrelude sample_headers = Inr ()"
  by (simp add: validatePrelude_def sample_headers_def isPlainObject_def hasOwnProperty_def
      object_entries_def)

lemma sample_encode: "encodePrelude node sample_headers default_encode_options = Inr sample_frame"
proof -
  have st: "JSON_stringify node (payload_object (Finite 1) sample_headers) = Inr sample_json"
    by (simp add: node_def sample_serialize)
  have mk: "makePreludeBuffer (ascii_bytes ''PRE1'') (ascii_bytes sample_json) = Inr sample_frame"
    by (simp add: makePreludeBuffer_eq MAGIC_LENGTH_def length_sample_json sample_frame_def
        uint32_bytes_def)
  have bf: "Buffer_from_utf8 node = ascii_bytes"
    by (simp add: node_def)
  show ?thesis
    by (simp add: encodePrelude_def default_encode_options_def node_magic_default first_magic_def
        sample_valid st bf validateJsonLength_def length_sample_json DEFAULT_MAX_JSON_BYTES_def mk)
qed

lemma sample_representable: "json_representable node (payload_object (Finite 1) sample_headers)"
  by (simp add: json_representable_def node_def sample_serialize sample_parse)

section \<open>Round trip of the buffer-based functions\<close>

text \<open>
  Claim C1. Let \<open>H\<close> be a header that \<open>encodePrelude\<close> accepts and whose payload (\<open>H\<close>
  with the version field \<open>v\<close> added, 1 by default) is JSON-representable: the runtime
  reads back from the payload bytes the value that it serialized. Then, for every body
  \<open>B\<close>, \<open>decodePrelude\<close> applied to the frame followed by \<open>B\<close>, under the same marker
  and size options, succeeds and returns that payload object and an offset equal to the
  length of the frame, and the bytes of the buffer from the offset on are \<open>B\<close>.
\<close>

theorem decode_encode_roundtrip:
  assumes enc: "encodePrelude rt H eopts = Inr frame"
    and rep: "json_representable rt
                (payload_object (case version eopts of None \<Rightarrow> Finite 1 | Some n \<Rightarrow> n) H)"
    and mg: "magic dopts = map_option Single (magic eopts)"
    and mx: "maxJsonBytes dopts = maxJsonBytes eopts"
  shows "decodePrelude rt (frame @ B) dopts =
           Inr (payload_object (case version eopts of None \<Rightarrow> Finite 1 | Some n \<Rightarrow> n) H,
                length frame)
         \<and> drop (length frame) (frame @ B) = B"
proof -
  let ?ver = "case version eopts of None \<Rightarrow> Finite 1 | Some n \<Rightarrow> n"
  from enc obtain m s where
    ms: "assertMagicList rt (map_option Single (magic eopts)) = Inr [m]"
    and m: "length m = MAGIC_LENGTH"
    and s: "JSON_stringify rt (payload_object ?ver H) = Inr s"
    and pos: "0 < length (Buffer_from_utf8 rt s)"
    and le: "int (length (Buffer_from_utf8 rt s)) \<le> (case maxJsonBytes eopts of None \<Rightarrow> DEFAULT_MAX_JSON_BYTES | Some n \<Rightarrow> n)"
    and small: "length (Buffer_from_utf8 rt s) \<le> 4294967295"
    and fr: "frame = m @ uint32_bytes (length (Buffer_from_utf8 rt s)) @ Buffer_from_utf8 rt s"
    by (rule encodePrelude_Inr)
  let ?jb = "Buffer_from_utf8 rt s"
  define buf where "buf = frame @ B"
  have buf: "buf = m @ uint32_bytes (length ?jb) @ (?jb @ B)"
    by (simp add: fr buf_def)
  have rd: "readUInt32BE buf MAGIC_LENGTH = Inr (length ?jb)"
    unfolding buf using read_uint32_bytes [OF small, of m "?jb @ B"] m by simp
  have tk: "take MAGIC_LENGTH buf = m"
    using m by (simp add: buf)
  have len: "length frame = MAGIC_LENGTH + LENGTH_BYTES + length ?jb"
    using m by (simp add: fr LENGTH_BYTES_def)
  have blen: "length buf = MAGIC_LENGTH + LENGTH_BYTES + length ?jb + length B"
    using m by (simp add: buf LENGTH_BYTES_def)
  have payload: "take (length ?jb) (drop (MAGIC_LENGTH + LENGTH_BYTES) buf) = ?jb"
    using m by (simp add: buf LENGTH_BYTES_def)
  have vl: "validateJsonLength (int (length ?jb))
              (case maxJsonBytes dopts of None \<Rightarrow> DEFAULT_MAX_JSON_BYTES | Some n \<Rightarrow> n) = Inr ()"
    using pos le by (simp add: validateJsonLength_Inr mx)
  from rep s have parse: "JSON_parse rt (toString_utf8 rt ?jb) = Some (payload_object ?ver H)"
    by (simp add: json_representable_def)
  have obj: "isPlainObject (payload_object ?ver H)"
    by (simp add: isPlainObject_def payload_object_def)
  have "decodePrelude rt buf dopts = Inr (payload_object ?ver H, length frame)"
    unfolding decodePrelude_def
    by (simp add: mg ms Let_def tk rd vl payload parse obj len blen)
  then show ?thesis by (simp add: buf_def)
qed

theorem decode_encode_roundtrip_witness:
  "encodePrelude node sample_headers default_encode_options = Inr sample_frame
   \<and> decodePrelude node (sample_frame @ ascii_bytes ''Hello world!'') default_decode_options =
       Inr (JObject [(''v'', JNumber (Finite 1)), (''contentType'', JString ''text/plain'')],
            length sample_frame)
   \<and> drop (length sample_frame) (sample_frame @ ascii_bytes ''Hello world!'') =
       ascii_bytes ''Hello world!''"
proof -
  have rep: "json_representable node
               (payload_object (case version default_encode_options of None \<Rightarrow> Finite 1 | Some n \<Rightarrow> n)
                  sample_headers)"
    by (simp add: default_encode_options_def sample_representable)
  have mg: "magic default_decode_options = map_option Single (magic default_encode_options)"
    by (simp add: default_decode_options_def default_encode_options_def)
  have mx: "maxJsonBytes default_decode_options = maxJsonBytes default_encode_options"
    by (simp add: default_decode_options_def default_encode_options_def)
  have pl: "payload_object (case version default_encode_options of None \<Rightarrow> Finite 1 | Some n \<Rightarrow> n)
              sample_headers =
            JObject [(''v'', JNumber (Finite 1)), (''contentType'', JString ''text/plain'')]"
    by (simp add: default_encode_options_def payload_object_def sample_headers_def object_entries_def)
  from decode_encode_roundtrip [OF sample_encode rep mg mx, of "ascii_bytes ''Hello world!''"]
  show ?thesis
    by (simp only: sample_encode pl simp_thms)
qed

section \<open>The size of a prelude\<close>

text \<open>
  Claim C4. For every header and every set of options, \<open>getPreludeSize\<close> returns the
  length of what \<open>encodePrelude\<close> returns, and the two fail on the same inputs with the
  same error. (A serialized payload is shorter than \<open>2 ^ 32\<close> bytes, as every string of
  the JavaScript engine is; a longer one could not be written into the 32-bit length
  field.)
\<close>

theorem getPreludeSize_is_encoded_length:
  assumes "\<And>s. JSON_stringify rt
              (payload_object (case version opts of None \<Rightarrow> Finite 1 | Some n \<Rightarrow> n) H) = Inr s
            \<Longrightarrow> length (Buffer_from_utf8 rt s) \<le> 4294967295"
  shows "getPreludeSize rt H opts = map_sum id length (encodePrelude rt H opts)"
proof (cases "assertMagicList rt (map_option Single (magic opts))")
  case (Inl e)
  then show ?thesis by (simp add: getPreludeSize_def encodePrelude_def)
next
  case (Inr ms)
  then obtain m where m: "ms = [m]" "length m = MAGIC_LENGTH"
    by (rule assertMagicList_single)
  show ?thesis
    using Inr m assms
    by (auto simp: getPreludeSize_def encodePrelude_def Let_def first_magic_def
        Buffer_byteLength_def makePreludeBuffer_eq LENGTH_BYTES_def split: sum.splits)
qed

theorem getPreludeSize_is_encoded_length_witness:
  "getPreludeSize node sample_headers default_encode_options = Inr 42
   \<and> map_sum id length (encodePrelude node sample_headers default_encode_options) = Inr 42"
proof -
  have small: "length (Buffer_from_utf8 node s) \<le> 4294967295"
    if "JSON_stringify node
          (payload_object (case version default_encode_options of None \<Rightarrow> Finite 1 | Some n \<Rightarrow> n)
             sample_headers) = Inr s" for s
  proof -
    from that have "s = sample_json"
      by (simp add: default_encode_options_def node_def sample_serialize)
    then show ?thesis
      by (simp add: node_def length_sample_json)
  qed
  have len: "length sample_frame = 42"
    by (simp add: sample_frame_def length_sample_json)
  from getPreludeSize_is_encoded_length [of node default_encode_options sample_headers, OF small]
  show ?thesis
    by (simp add: sample_encode len)
qed

section \<open>A length field of zero\<close>

text \<open>
  Claim C6. For every buffer whose first 4 bytes are an accepted marker and whose length
  field is 0, \<open>decodePrelude\<close> never succeeds, and it fails with the parse error
  \<open>JSON payload must be non-empty\<close> whenever the configured maximum is not negative.
\<close>

theorem zero_length_is_rejected:
  assumes ms: "assertMagicList rt (magic opts) = Inr ms"
    and mg: "take MAGIC_LENGTH buf \<in> set ms"
    and zero: "take LENGTH_BYTES (drop MAGIC_LENGTH buf) = [0, 0, 0, 0]"
  shows "(0 \<le> (case maxJsonBytes opts of None \<Rightarrow> DEFAULT_MAX_JSON_BYTES | Some n \<Rightarrow> n) \<longrightarrow>
            decodePrelude rt buf opts = Inl (PreludeJsonParseError ''JSON payload must be non-empty''))
         \<and> (\<forall>h off. decodePrelude rt buf opts \<noteq> Inr (h, off))"
proof -
  from zero have "length (take LENGTH_BYTES (drop MAGIC_LENGTH buf)) = 4" by simp
  then have len: "8 \<le> length buf"
    by (simp add: LENGTH_BYTES_def MAGIC_LENGTH_def)
  have nth: "buf ! 4 = 0" "buf ! 5 = 0" "buf ! 6 = 0" "buf ! 7 = 0"
  proof -
    have "\<And>i. i < 4 \<Longrightarrow> buf ! (4 + i) = (take LENGTH_BYTES (drop MAGIC_LENGTH buf)) ! i"
      using len by (simp add: LENGTH_BYTES_def MAGIC_LENGTH_def)
    from this [of 0] this [of 1] this [of 2] this [of 3]
    show "buf ! 4 = 0" "buf ! 5 = 0" "buf ! 6 = 0" "buf ! 7 = 0"
      by (simp_all add: zero)
  qed
  have rd: "readUInt32BE buf MAGIC_LENGTH = Inr 0"
    using len nth by (simp add: readUInt32BE_def MAGIC_LENGTH_def)
  show ?thesis
    using ms mg len rd
    by (auto simp: decodePrelude_def Let_def validateJsonLength_def MAGIC_LENGTH_def LENGTH_BYTES_def)
qed

theorem zero_length_is_rejected_witness:
  "decodePrelude node (ascii_bytes ''PRE1'' @ [0, 0, 0, 0] @ ascii_bytes ''{}'') default_decode_options =
     Inl (PreludeJsonParseError ''JSON payload must be non-empty'')
   \<and> (\<forall>h off. decodePrelude node (ascii_bytes ''PRE1'' @ [0, 0, 0, 0] @ ascii_bytes ''{}'')
                  default_decode_options \<noteq> Inr (h, off))"
proof -
  have ms: "assertMagicList node (magic default_decode_options) = Inr [ascii_bytes ''PRE1'']"
    by (simp add: default_decode_options_def node_magic_default)
  have mg: "take MAGIC_LENGTH (ascii_bytes ''PRE1'' @ [0, 0, 0, 0] @ ascii_bytes ''{}'')
              \<in> set [ascii_bytes ''PRE1'']"
    by (simp add: MAGIC_LENGTH_def)
  have zero: "take LENGTH_BYTES (drop MAGIC_LENGTH (ascii_bytes ''PRE1'' @ [0, 0, 0, 0] @ ascii_bytes ''{}''))
                = [0, 0, 0, 0]"
    by (simp add: MAGIC_LENGTH_def LENGTH_BYTES_def)
  from zero_length_is_rejected [OF ms mg zero]
  show ?thesis
    by (simp add: default_decode_options_def DEFAULT_MAX_JSON_BYTES_def)
qed

end
